theory Spec2Isabelle
  imports Complex_Main
begin

section \<open>The query commands of x/leverage/client/cli/query.go\<close>

text \<open>
  The file builds a tree of cobra commands: \<open>GetQueryCmd\<close> is the parent, and each
  \<open>GetCmdQuery...\<close> function builds one subcommand whose \<open>RunE\<close> obtains a client
  context, fills a request message from the positional arguments and the \<open>--denom\<close>
  flag, calls one method of the query client and prints the response.

  The collaborators that the file imports (cobra and pflag, the SDK's client context,
  the generated query client) are not part of the file. They are parameters of the
  model: every \<open>RunE\<close> receives an \<open>invocation\<close> holding what those collaborators
  answer, and returns the calls it made on the client context together with the error
  it returns.
\<close>

subsection \<open>Errors, requests, query methods\<close>

datatype error =
    Err string                 \<comment> \<open>an error value returned by a collaborator\<close>
  | UnknownCommand string      \<comment> \<open>cobra.NoArgs: unknown command "arg"\<close>
  | AcceptsArgs nat nat        \<comment> \<open>cobra.ExactArgs(n): accepts n arg(s), received m\<close>
  | IndexOutOfRange            \<comment> \<open>the Go runtime panic of \<open>args[0]\<close> on an empty slice\<close>

text \<open>
  The request messages, one constructor for each struct of package \<open>types\<close> that the file
  instantiates, with the fields that its composite literals and assignments name.
\<close>

datatype request =
    QueryRegisteredTokens
  | QueryParamsRequest
  | QueryBorrowedRequest (Address: string) (Denom: string)
  | QueryBorrowedValueRequest (Address: string) (Denom: string)
  | QuerySuppliedRequest (Address: string) (Denom: string)
  | QuerySuppliedValueRequest (Address: string) (Denom: string)
  | QueryReserveAmountRequest (Denom: string)
  | QueryCollateralRequest (Address: string) (Denom: string)
  | QueryCollateralValueRequest (Address: string) (Denom: string)
  | QueryExchangeRateRequest (Denom: string)
  | QueryAvailableBorrowRequest (Denom: string)
  | QuerySupplyAPYRequest (Denom: string)
  | QueryBorrowAPYRequest (Denom: string)
  | QueryMarketSizeRequest (Denom: string)
  | QueryTokenMarketSizeRequest (Denom: string)
  | QueryBorrowLimitRequest (Address: string)
  | QueryLiquidationThresholdRequest (Address: string)
  | QueryMarketSummaryRequest (Denom: string)
  | QueryLiquidationTargetsRequest
  | QueryTotalCollateralRequest (Denom: string)
  | QueryTotalBorrowedRequest (Denom: string)

text \<open>The methods of the query client that the file calls.\<close>

datatype rpc =
    RegisteredTokens | Params | Borrowed | BorrowedValue | Supplied | SuppliedValue
  | ReserveAmount | Collateral | CollateralValue | ExchangeRate | AvailableBorrow
  | SupplyAPY | BorrowAPY | MarketSize | TokenMarketSize | BorrowLimit
  | LiquidationThreshold | MarketSummary | LiquidationTargets | TotalCollateral
  | TotalBorrowed

subsection \<open>The client context and the invocation\<close>

text \<open>
  \<open>Invoke ctx m req\<close> is the call \<open>queryClient.m(cmd.Context(), req)\<close> on the query client
  made from the context: the response of the remote service (of the opaque type \<open>'r\<close>) or
  its error. \<open>PrintProto ctx resp\<close> is \<open>clientCtx.PrintProto(resp)\<close>: the error it
  returns, if any.
\<close>

record 'r clientCtx =
  Invoke :: "rpc \<Rightarrow> request \<Rightarrow> error + 'r"
  PrintProto :: "'r \<Rightarrow> error option"

text \<open>
  What the collaborators answer during one run of a command:
  \<open>client.GetClientQueryContext(cmd)\<close>, \<open>cmd.Flags().GetString(name)\<close> (the value and
  the error), and \<open>client.ValidateCmd(cmd, args)\<close>, which the parent command runs.
\<close>

record 'r invocation =
  GetClientQueryContext :: "error + 'r clientCtx"
  GetString :: "string \<Rightarrow> string \<times> error option"
  ValidateCmd :: "string list \<Rightarrow> error option"

text \<open>
  The calls a run makes on the client context, in order, and the error the run returns
  (\<open>None\<close> is Go's \<open>nil\<close>).
\<close>

datatype 'r event = Query rpc request | Print 'r

type_synonym 'r outcome = "'r event list \<times> error option"

subsection \<open>cobra commands\<close>

datatype positional_args = NoArgs | ExactArgs nat

datatype flag =
    StringFlag string string string   \<comment> \<open>\<open>cmd.Flags().String(name, value, usage)\<close>\<close>
  | QueryFlags                        \<comment> \<open>the flags that \<open>flags.AddQueryFlagsToCmd\<close> adds\<close>

text \<open>
  The fields of \<open>cobra.Command\<close> that the file sets. A field that a composite literal
  leaves out has Go's zero value, as in \<open>Command0\<close>.
\<close>

record 'r Command =
  Use :: string
  Short :: string
  Args :: "positional_args option"
  DisableFlagParsing :: bool
  SuggestionsMinimumDistance :: nat
  RunE :: "('r invocation \<Rightarrow> string list \<Rightarrow> 'r outcome) option"
  Flags :: "flag list"

datatype 'r command = Cmd (fields: "'r Command") (Commands: "'r command list")

definition Command0 :: "'r Command" where
  "Command0 = \<lparr>Use = [], Short = [], Args = None, DisableFlagParsing = False,
     SuggestionsMinimumDistance = 0, RunE = None, Flags = []\<rparr>"

definition AddFlag :: "flag \<Rightarrow> 'r command \<Rightarrow> 'r command" where
  "AddFlag f cmd = Cmd ((fields cmd)\<lparr>Flags := Flags (fields cmd) @ [f]\<rparr>) (Commands cmd)"

definition AddQueryFlagsToCmd :: "'r command \<Rightarrow> 'r command" where
  "AddQueryFlagsToCmd cmd = AddFlag QueryFlags cmd"

definition AddCommand :: "'r command list \<Rightarrow> 'r command \<Rightarrow> 'r command" where
  "AddCommand cmds cmd = Cmd (fields cmd) (Commands cmd @ cmds)"

text \<open>cobra's \<open>Name()\<close>: the text of \<open>Use\<close> before its first space.\<close>

definition Name :: "'r command \<Rightarrow> string" where
  "Name cmd = takeWhile (\<lambda>ch. ch \<noteq> CHR '' '') (Use (fields cmd))"

text \<open>
  The positional-argument validators; a command whose \<open>Args\<close> is unset accepts any
  arguments.
\<close>

fun ValidateArgs :: "positional_args option \<Rightarrow> string list \<Rightarrow> error option" where
  "ValidateArgs None args = None"
| "ValidateArgs (Some NoArgs) args =
     (case args of [] \<Rightarrow> None | a # _ \<Rightarrow> Some (UnknownCommand a))"
| "ValidateArgs (Some (ExactArgs n)) args =
     (if length args = n then None else Some (AcceptsArgs n (length args)))"

text \<open>
  Running one command on its positional arguments: cobra validates them, then calls
  \<open>RunE\<close>.
\<close>

definition run :: "'r command \<Rightarrow> 'r invocation \<Rightarrow> string list \<Rightarrow> 'r outcome" where
  "run cmd io args =
     (case ValidateArgs (Args (fields cmd)) args of
        Some err \<Rightarrow> ([], Some err)
      | None \<Rightarrow> (case RunE (fields cmd) of None \<Rightarrow> ([], None) | Some f \<Rightarrow> f io args))"

text \<open>
  cobra's dispatch, on the words of the command line that are not flags: when the first
  word names a subcommand, that subcommand runs on the remaining words; otherwise the
  command itself runs on all of them.
\<close>

fun find_command :: "string \<Rightarrow> 'r command list \<Rightarrow> 'r command option" where
  "find_command a [] = None"
| "find_command a (c # cs) = (if Name c = a then Some c else find_command a cs)"

definition execute :: "'r command \<Rightarrow> 'r invocation \<Rightarrow> string list \<Rightarrow> 'r outcome" where
  "execute cmd io args =
     (case args of
        [] \<Rightarrow> run cmd io []
      | a # rest \<Rightarrow>
          (case find_command a (Commands cmd) of
             Some sub \<Rightarrow> run sub io rest
           | None \<Rightarrow> run cmd io args))"

subsection \<open>The commands\<close>

definition FlagDenom :: string where
  "FlagDenom = ''denom''"

text \<open>
  The tail every \<open>RunE\<close> of the file ends with:
  \<^verbatim>\<open>resp, err := queryClient.M(cmd.Context(), req)
  if err != nil { return err }
  return clientCtx.PrintProto(resp)\<close>
\<close>

definition query_and_print :: "'r clientCtx \<Rightarrow> rpc \<Rightarrow> request \<Rightarrow> 'r outcome" where
  "query_and_print clientCtx m req =
     (case Invoke clientCtx m req of
        Inl err \<Rightarrow> ([Query m req], Some err)
      | Inr resp \<Rightarrow> ([Query m req, Print resp], PrintProto clientCtx resp))"

definition GetCmdQueryAllRegisteredTokens :: "'r command" where
  "GetCmdQueryAllRegisteredTokens =
     (let cmd = Cmd (Command0\<lparr>
            Use := ''registered-tokens'',
            Args := Some NoArgs,
            Short := ''Query for all the current registered tokens'',
            RunE := Some (\<lambda>io args.
              case GetClientQueryContext io of
                Inl err \<Rightarrow> ([], Some err)
              | Inr clientCtx \<Rightarrow>
                  query_and_print clientCtx RegisteredTokens QueryRegisteredTokens)\<rparr>) []
      in AddQueryFlagsToCmd cmd)"

definition GetCmdQueryParams :: "'r command" where
  "GetCmdQueryParams =
     (let cmd = Cmd (Command0\<lparr>
            Use := ''params'',
            Args := Some NoArgs,
            Short := ''Query the x/leverage module parameters'',
            RunE := Some (\<lambda>io args.
              case GetClientQueryContext io of
                Inl err \<Rightarrow> ([], Some err)
              | Inr clientCtx \<Rightarrow> query_and_print clientCtx Params QueryParamsRequest)\<rparr>) []
      in AddQueryFlagsToCmd cmd)"

definition GetCmdQueryBorrowed :: "'r command" where
  "GetCmdQueryBorrowed =
     (let cmd = Cmd (Command0\<lparr>
            Use := ''borrowed [addr]'',
            Args := Some (ExactArgs 1),
            Short := ''Query for the total amount of borrowed tokens for an address'',
            RunE := Some (\<lambda>io args.
              case GetClientQueryContext io of
                Inl err \<Rightarrow> ([], Some err)
              | Inr clientCtx \<Rightarrow>
                  (case args of
                     [] \<Rightarrow> ([], Some IndexOutOfRange)
                   | a # _ \<Rightarrow>
                       (let req = QueryBorrowedRequest a [];
                            req = (case GetString io FlagDenom of (d, err) \<Rightarrow>
                                     if 0 < length d \<and> err = None
                                     then QueryBorrowedRequest (Address req) d else req)
                        in query_and_print clientCtx Borrowed req)))\<rparr>) [];
          cmd = AddFlag (StringFlag FlagDenom [] ''Query for a specific denomination'') cmd
      in AddQueryFlagsToCmd cmd)"

definition GetCmdQueryBorrowedValue :: "'r command" where
  "GetCmdQueryBorrowedValue =
     (let cmd = Cmd (Command0\<lparr>
            Use := ''borrowed-value [addr]'',
            Args := Some (ExactArgs 1),
            Short := ''Query for the total USD value of borrowed tokens for an address'',
            RunE := Some (\<lambda>io args.
              case GetClientQueryContext io of
                Inl err \<Rightarrow> ([], Some err)
              | Inr clientCtx \<Rightarrow>
                  (case args of
                     [] \<Rightarrow> ([], Some IndexOutOfRange)
                   | a # _ \<Rightarrow>
                       (let req = QueryBorrowedValueRequest a [];
                            req = (case GetString io FlagDenom of (d, err) \<Rightarrow>
                                     if 0 < length d \<and> err = None
                                     then QueryBorrowedValueRequest (Address req) d else req)
                        in query_and_print clientCtx BorrowedValue req)))\<rparr>) [];
          cmd = AddFlag (StringFlag FlagDenom []
                  ''Query for value of only a specific denomination'') cmd
      in AddQueryFlagsToCmd cmd)"

definition GetCmdQuerySupplied :: "'r command" where
  "GetCmdQuerySupplied =
     (let cmd = Cmd (Command0\<lparr>
            Use := ''supplied [addr]'',
            Args := Some (ExactArgs 1),
            Short := ''Query for the total amount of tokens supplied by an address'',
            RunE := Some (\<lambda>io args.
              case GetClientQueryContext io of
                Inl err \<Rightarrow> ([], Some err)
              | Inr clientCtx \<Rightarrow>
                  (case args of
                     [] \<Rightarrow> ([], Some IndexOutOfRange)
                   | a # _ \<Rightarrow>
                       (let req = QuerySuppliedRequest a [];
                            req = (case GetString io FlagDenom of (d, err) \<Rightarrow>
                                     if 0 < length d \<and> err = None
                                     then QuerySuppliedRequest (Address req) d else req)
                        in query_and_print clientCtx Supplied req)))\<rparr>) [];
          cmd = AddFlag (StringFlag FlagDenom [] ''Query for a specific denomination'') cmd
      in AddQueryFlagsToCmd cmd)"

definition GetCmdQuerySuppliedValue :: "'r command" where
  "GetCmdQuerySuppliedValue =
     (let cmd = Cmd (Command0\<lparr>
            Use := ''supplied-value [addr]'',
            Args := Some (ExactArgs 1),
            Short := ''Query for the USD value of tokens supplied by an address'',
            RunE := Some (\<lambda>io args.
              case GetClientQueryContext io of
                Inl err \<Rightarrow> ([], Some err)
              | Inr clientCtx \<Rightarrow>
                  (case args of
                     [] \<Rightarrow> ([], Some IndexOutOfRange)
                   | a # _ \<Rightarrow>
                       (let req = QuerySuppliedValueRequest a [];
                            req = (case GetString io FlagDenom of (d, err) \<Rightarrow>
                                     if 0 < length d \<and> err = None
                                     then QuerySuppliedValueRequest (Address req) d else req)
                        in query_and_print clientCtx SuppliedValue req)))\<rparr>) [];
          cmd = AddFlag (StringFlag FlagDenom []
                  ''Query for value of only a specific denomination'') cmd
      in AddQueryFlagsToCmd cmd)"

definition GetCmdQueryReserveAmount :: "'r command" where
  "GetCmdQueryReserveAmount =
     (let cmd = Cmd (Command0\<lparr>
            Use := ''reserved [denom]'',
            Args := Some (ExactArgs 1),
            Short := ''Query for the amount reserved of a specified denomination'',
            RunE := Some (\<lambda>io args.
              case GetClientQueryContext io of
                Inl err \<Rightarrow> ([], Some err)
              | Inr clientCtx \<Rightarrow>
                  (case args of
                     [] \<Rightarrow> ([], Some IndexOutOfRange)
                   | a # _ \<Rightarrow>
                       (let req = QueryReserveAmountRequest a
                        in query_and_print clientCtx ReserveAmount req)))\<rparr>) []
      in AddQueryFlagsToCmd cmd)"

definition GetCmdQueryCollateral :: "'r command" where
  "GetCmdQueryCollateral =
     (let cmd = Cmd (Command0\<lparr>
            Use := ''collateral [addr]'',
            Args := Some (ExactArgs 1),
            Short := ''Query for the total amount of collateral tokens for an address'',
            RunE := Some (\<lambda>io args.
              case GetClientQueryContext io of
                Inl err \<Rightarrow> ([], Some err)
              | Inr clientCtx \<Rightarrow>
                  (case args of
                     [] \<Rightarrow> ([], Some IndexOutOfRange)
                   | a # _ \<Rightarrow>
                       (let req = QueryCollateralRequest a [];
                            req = (case GetString io FlagDenom of (d, err) \<Rightarrow>
                                     if 0 < length d \<and> err = None
                                     then QueryCollateralRequest (Address req) d else req)
                        in query_and_print clientCtx Collateral req)))\<rparr>) [];
          cmd = AddFlag (StringFlag FlagDenom [] ''Query for a specific denomination'') cmd
      in AddQueryFlagsToCmd cmd)"

definition GetCmdQueryCollateralValue :: "'r command" where
  "GetCmdQueryCollateralValue =
     (let cmd = Cmd (Command0\<lparr>
            Use := ''collateral-value [addr]'',
            Args := Some (ExactArgs 1),
            Short := ''Query for the total USD value of collateral tokens for an address'',
            RunE := Some (\<lambda>io args.
              case GetClientQueryContext io of
                Inl err \<Rightarrow> ([], Some err)
              | Inr clientCtx \<Rightarrow>
                  (case args of
                     [] \<Rightarrow> ([], Some IndexOutOfRange)
                   | a # _ \<Rightarrow>
                       (let req = QueryCollateralValueRequest a [];
                            req = (case GetString io FlagDenom of (d, err) \<Rightarrow>
                                     if 0 < length d \<and> err = None
                                     then QueryCollateralValueRequest (Address req) d else req)
                        in query_and_print clientCtx CollateralValue req)))\<rparr>) [];
          cmd = AddFlag (StringFlag FlagDenom []
                  ''Query for value of only a specific denomination'') cmd
      in AddQueryFlagsToCmd cmd)"

definition GetCmdQueryExchangeRate :: "'r command" where
  "GetCmdQueryExchangeRate =
     (let cmd = Cmd (Command0\<lparr>
            Use := ''exchange-rate [denom]'',
            Args := Some (ExactArgs 1),
            Short := ''Query for the exchange rate of a specified denomination'',
            RunE := Some (\<lambda>io args.
              case GetClientQueryContext io of
                Inl err \<Rightarrow> ([], Some err)
              | Inr clientCtx \<Rightarrow>
                  (case args of
                     [] \<Rightarrow> ([], Some IndexOutOfRange)
                   | a # _ \<Rightarrow>
                       (let req = QueryExchangeRateRequest a
                        in query_and_print clientCtx ExchangeRate req)))\<rparr>) []
      in AddQueryFlagsToCmd cmd)"

definition GetCmdQueryAvailableBorrow :: "'r command" where
  "GetCmdQueryAvailableBorrow =
     (let cmd = Cmd (Command0\<lparr>
            Use := ''available-borrow [denom]'',
            Args := Some (ExactArgs 1),
            Short := ''Query for the available amount to borrow of a specified denomination'',
            RunE := Some (\<lambda>io args.
              case GetClientQueryContext io of
                Inl err \<Rightarrow> ([], Some err)
              | Inr clientCtx \<Rightarrow>
                  (case args of
                     [] \<Rightarrow> ([], Some IndexOutOfRange)
                   | a # _ \<Rightarrow>
                       (let req = QueryAvailableBorrowRequest a
                        in query_and_print clientCtx AvailableBorrow req)))\<rparr>) []
      in AddQueryFlagsToCmd cmd)"

definition GetCmdQuerySupplyAPY :: "'r command" where
  "GetCmdQuerySupplyAPY =
     (let cmd = Cmd (Command0\<lparr>
            Use := ''supply-apy [denom]'',
            Args := Some (ExactArgs 1),
            Short := ''Query for the supply APY of a specified denomination'',
            RunE := Some (\<lambda>io args.
              case GetClientQueryContext io of
                Inl err \<Rightarrow> ([], Some err)
              | Inr clientCtx \<Rightarrow>
                  (case args of
                     [] \<Rightarrow> ([], Some IndexOutOfRange)
                   | a # _ \<Rightarrow>
                       (let req = QuerySupplyAPYRequest a
                        in query_and_print clientCtx SupplyAPY req)))\<rparr>) []
      in AddQueryFlagsToCmd cmd)"

definition GetCmdQueryBorrowAPY :: "'r command" where
  "GetCmdQueryBorrowAPY =
     (let cmd = Cmd (Command0\<lparr>
            Use := ''borrow-apy [denom]'',
            Args := Some (ExactArgs 1),
            Short := ''Query for the borrow APY of a specified denomination'',
            RunE := Some (\<lambda>io args.
              case GetClientQueryContext io of
                Inl err \<Rightarrow> ([], Some err)
              | Inr clientCtx \<Rightarrow>
                  (case args of
                     [] \<Rightarrow> ([], Some IndexOutOfRange)
                   | a # _ \<Rightarrow>
                       (let req = QueryBorrowAPYRequest a
                        in query_and_print clientCtx BorrowAPY req)))\<rparr>) []
      in AddQueryFlagsToCmd cmd)"

definition GetCmdQueryMarketSize :: "'r command" where
  "GetCmdQueryMarketSize =
     (let cmd = Cmd (Command0\<lparr>
            Use := ''market-size [denom]'',
            Args := Some (ExactArgs 1),
            Short := ''Query for the USD market size of a specified denomination'',
            RunE := Some (\<lambda>io args.
              case GetClientQueryContext io of
                Inl err \<Rightarrow> ([], Some err)
              | Inr clientCtx \<Rightarrow>
                  (case args of
                     [] \<Rightarrow> ([], Some IndexOutOfRange)
                   | a # _ \<Rightarrow>
                       (let req = QueryMarketSizeRequest a
                        in query_and_print clientCtx MarketSize req)))\<rparr>) []
      in AddQueryFlagsToCmd cmd)"

definition GetCmdQueryTokenMarketSize :: "'r command" where
  "GetCmdQueryTokenMarketSize =
     (let cmd = Cmd (Command0\<lparr>
            Use := ''token-market-size [denom]'',
            Args := Some (ExactArgs 1),
            Short :=
              ''Query for the market size of a specified denomination measured in base tokens'',
            RunE := Some (\<lambda>io args.
              case GetClientQueryContext io of
                Inl err \<Rightarrow> ([], Some err)
              | Inr clientCtx \<Rightarrow>
                  (case args of
                     [] \<Rightarrow> ([], Some IndexOutOfRange)
                   | a # _ \<Rightarrow>
                       (let req = QueryTokenMarketSizeRequest a
                        in query_and_print clientCtx TokenMarketSize req)))\<rparr>) []
      in AddQueryFlagsToCmd cmd)"

definition GetCmdQueryBorrowLimit :: "'r command" where
  "GetCmdQueryBorrowLimit =
     (let cmd = Cmd (Command0\<lparr>
            Use := ''borrow-limit [addr]'',
            Args := Some (ExactArgs 1),
            Short := ''Query for the borrow limit of a specified borrower'',
            RunE := Some (\<lambda>io args.
              case GetClientQueryContext io of
                Inl err \<Rightarrow> ([], Some err)
              | Inr clientCtx \<Rightarrow>
                  (case args of
                     [] \<Rightarrow> ([], Some IndexOutOfRange)
                   | a # _ \<Rightarrow>
                       (let req = QueryBorrowLimitRequest a
                        in query_and_print clientCtx BorrowLimit req)))\<rparr>) []
      in AddQueryFlagsToCmd cmd)"

definition GetCmdQueryLiquidationThreshold :: "'r command" where
  "GetCmdQueryLiquidationThreshold =
     (let cmd = Cmd (Command0\<lparr>
            Use := ''liquidation-threshold [addr]'',
            Args := Some (ExactArgs 1),
            Short := ''Query a liquidation threshold of a specified borrower'',
            RunE := Some (\<lambda>io args.
              case GetClientQueryContext io of
                Inl err \<Rightarrow> ([], Some err)
              | Inr clientCtx \<Rightarrow>
                  (case args of
                     [] \<Rightarrow> ([], Some IndexOutOfRange)
                   | a # _ \<Rightarrow>
                       (let req = QueryLiquidationThresholdRequest a
                        in query_and_print clientCtx LiquidationThreshold req)))\<rparr>) []
      in AddQueryFlagsToCmd cmd)"

definition GetCmdQueryMarketSummary :: "'r command" where
  "GetCmdQueryMarketSummary =
     (let cmd = Cmd (Command0\<lparr>
            Use := ''market-summary [denom]'',
            Args := Some (ExactArgs 1),
            Short := ''Query for the market summary of a specified denomination'',
            RunE := Some (\<lambda>io args.
              case GetClientQueryContext io of
                Inl err \<Rightarrow> ([], Some err)
              | Inr clientCtx \<Rightarrow>
                  (case args of
                     [] \<Rightarrow> ([], Some IndexOutOfRange)
                   | a # _ \<Rightarrow>
                       (let req = QueryMarketSummaryRequest a
                        in query_and_print clientCtx MarketSummary req)))\<rparr>) []
      in AddQueryFlagsToCmd cmd)"

definition GetCmdQueryLiquidationTargets :: "'r command" where
  "GetCmdQueryLiquidationTargets =
     (let cmd = Cmd (Command0\<lparr>
            Use := ''liquidation-targets'',
            Args := Some (ExactArgs 0),
            Short := ''Query for all borrower addresses eligible for liquidation'',
            RunE := Some (\<lambda>io args.
              case GetClientQueryContext io of
                Inl err \<Rightarrow> ([], Some err)
              | Inr clientCtx \<Rightarrow>
                  (let req = QueryLiquidationTargetsRequest
                   in query_and_print clientCtx LiquidationTargets req))\<rparr>) []
      in AddQueryFlagsToCmd cmd)"

definition GetCmdQueryTotalCollateral :: "'r command" where
  "GetCmdQueryTotalCollateral =
     (let cmd = Cmd (Command0\<lparr>
            Use := ''total-collateral [denom]'',
            Args := Some (ExactArgs 1),
            Short := ''Query for the total amount of collateral of a uToken denomination'',
            RunE := Some (\<lambda>io args.
              case GetClientQueryContext io of
                Inl err \<Rightarrow> ([], Some err)
              | Inr clientCtx \<Rightarrow>
                  (case args of
                     [] \<Rightarrow> ([], Some IndexOutOfRange)
                   | a # _ \<Rightarrow>
                       (let req = QueryTotalCollateralRequest a
                        in query_and_print clientCtx TotalCollateral req)))\<rparr>) []
      in AddQueryFlagsToCmd cmd)"

definition GetCmdQueryTotalBorrowed :: "'r command" where
  "GetCmdQueryTotalBorrowed =
     (let cmd = Cmd (Command0\<lparr>
            Use := ''total-borrowed [denom]'',
            Args := Some (ExactArgs 1),
            Short := ''Query for the total amount borrowed of a token denomination'',
            RunE := Some (\<lambda>io args.
              case GetClientQueryContext io of
                Inl err \<Rightarrow> ([], Some err)
              | Inr clientCtx \<Rightarrow>
                  (case args of
                     [] \<Rightarrow> ([], Some IndexOutOfRange)
                   | a # _ \<Rightarrow>
                       (let req = QueryTotalBorrowedRequest a
                        in query_and_print clientCtx TotalBorrowed req)))\<rparr>) []
      in AddQueryFlagsToCmd cmd)"

text \<open>
  \<open>GetQueryCmd\<close>. The constant \<open>types.ModuleName\<close> is declared outside the file and is a
  parameter here; \<open>queryRoute\<close> is the function's own parameter, which it does not use.
  The parent's \<open>RunE\<close> is \<open>client.ValidateCmd\<close>, which makes no call on a client context.
\<close>

definition GetQueryCmd :: "string \<Rightarrow> string \<Rightarrow> 'r command" where
  "GetQueryCmd ModuleName queryRoute =
     (let cmd = Cmd (Command0\<lparr>
            Use := ModuleName,
            Short := ''Querying commands for the '' @ ModuleName @ '' module'',
            DisableFlagParsing := True,
            SuggestionsMinimumDistance := 2,
            RunE := Some (\<lambda>io args. ([], ValidateCmd io args))\<rparr>) []
      in AddCommand [
           GetCmdQueryAllRegisteredTokens,
           GetCmdQueryParams,
           GetCmdQueryBorrowed,
           GetCmdQueryBorrowedValue,
           GetCmdQuerySupplied,
           GetCmdQuerySuppliedValue,
           GetCmdQueryReserveAmount,
           GetCmdQueryCollateral,
           GetCmdQueryCollateralValue,
           GetCmdQueryExchangeRate,
           GetCmdQuerySupplyAPY,
           GetCmdQueryBorrowAPY,
           GetCmdQueryMarketSize,
           GetCmdQueryTokenMarketSize,
           GetCmdQueryBorrowLimit,
           GetCmdQueryLiquidationThreshold,
           GetCmdQueryLiquidationTargets,
           GetCmdQueryMarketSummary,
           GetCmdQueryTotalCollateral,
           GetCmdQueryTotalBorrowed
         ] cmd)"

subsection \<open>Notions used to state the properties\<close>

text \<open>
  The value that the \<open>--denom\<close> flag leaves in \<open>req.Denom\<close>: the flag's value when it is
  not empty and was read without an error, the empty string otherwise.
\<close>

definition denom_flag :: "'r invocation \<Rightarrow> string" where
  "denom_flag io =
     (case GetString io FlagDenom of (d, err) \<Rightarrow> if d \<noteq> [] \<and> err = None then d else [])"

text \<open>
  The subcommands that take one positional argument, by the request field that the
  argument is assigned to.
\<close>

definition address_commands :: "string list" where
  "address_commands =
     [''borrowed'', ''borrowed-value'', ''supplied'', ''supplied-value'', ''collateral'',
      ''collateral-value'', ''borrow-limit'', ''liquidation-threshold'']"

definition denom_commands :: "string list" where
  "denom_commands =
     [''reserved'', ''exchange-rate'', ''supply-apy'', ''borrow-apy'', ''market-size'',
      ''token-market-size'', ''market-summary'', ''total-collateral'', ''total-borrowed'']"

text \<open>The subcommands that declare and read the \<open>--denom\<close> flag.\<close>

definition denom_flag_commands :: "string list" where
  "denom_flag_commands =
     [''borrowed'', ''borrowed-value'', ''supplied'', ''supplied-value'', ''collateral'',
      ''collateral-value'']"

text \<open>
  The queries that an outcome records, in order: the method called and the request
  passed.
\<close>

fun sent_events :: "'r event list \<Rightarrow> (rpc \<times> request) list" where
  "sent_events [] = []"
| "sent_events (Query m req # es) = (m, req) # sent_events es"
| "sent_events (Print resp # es) = sent_events es"

definition sent :: "'r outcome \<Rightarrow> (rpc \<times> request) list" where
  "sent out = sent_events (fst out)"

text \<open>
  The number of positional arguments that a command accepts: \<open>n\<close> for
  \<open>cobra.ExactArgs(n)\<close>, none for \<open>cobra.NoArgs\<close>.
\<close>

definition arity :: "'r command \<Rightarrow> nat" where
  "arity cmd = (case Args (fields cmd) of Some (ExactArgs n) \<Rightarrow> n | _ \<Rightarrow> 0)"

text \<open>
  The menu of queries that the specification lists, by the method of the query client
  that answers each: supplied, borrowed and collateral balances, each raw and valued in
  USD; the uToken exchange rate; the reserve amount; the supply and borrow APY; the
  market size in USD and in tokens; the borrow limit; the liquidation threshold; the
  liquidation targets; the market summary; the total collateral and the total borrowed.
\<close>

definition query_menu :: "rpc list" where
  "query_menu =
     [Supplied, SuppliedValue, Borrowed, BorrowedValue, Collateral, CollateralValue,
      ExchangeRate, ReserveAmount, SupplyAPY, BorrowAPY, MarketSize, TokenMarketSize,
      BorrowLimit, LiquidationThreshold, LiquidationTargets, MarketSummary,
      TotalCollateral, TotalBorrowed]"

text \<open>
  Concrete collaborators for the examples: a service that answers every query, and a
  flag reader that returns a value, once without and once with an error.
\<close>

definition example_ctx :: "string clientCtx" where
  "example_ctx = \<lparr>Invoke = (\<lambda>m req. Inr ''response''), PrintProto = (\<lambda>resp. None)\<rparr>"

definition example_io :: "string invocation" where
  "example_io = \<lparr>GetClientQueryContext = Inr example_ctx,
     GetString = (\<lambda>name. (''uumee'', None)), ValidateCmd = (\<lambda>args. None)\<rparr>"

definition flag_error_io :: "string invocation" where
  "flag_error_io = \<lparr>GetClientQueryContext = Inr example_ctx,
     GetString = (\<lambda>name. (''uumee'', Some (Err ''flag accessed but not defined''))),
     ValidateCmd = (\<lambda>args. None)\<rparr>"

section \<open>The interest rate model of the lending engine\<close>

text \<open>
  The repository holds the command-line client only; the lending engine that answers its
  queries is not among its files. The definitions of this section follow section 4.2 of
  the specification (InterestRateModel) and the data model of its section 3. Decimals are
  rational numbers here: the formulas are those of the specification before any rounding
  to a fixed precision.
\<close>

text \<open>
  Modelled from the spec: the record TokenDenomParams of the data model (the engine's
  parameter type is missing from the sources): collateral weight, liquidation threshold,
  reserve factor, the interest-curve parameters (base rate, kink utilization point, slope
  below and above the kink), the supply and borrow enable flags, and the maximum
  collateral share.
\<close>

record TokenDenomParams =
  collateralWeight :: rat
  liquidationThreshold :: rat
  reserveFactor :: rat
  baseRate :: rat
  kink :: rat
  slopeLow :: rat
  slopeHigh :: rat
  supplyEnabled :: bool
  borrowEnabled :: bool
  maxCollateralShare :: rat

text \<open>
  Modelled from the spec: the record MarketState of the data model (the engine's market
  type is missing from the sources): total supplied, total borrowed, total reserved, the
  current exchange rate and the time of the last interest accrual.
\<close>

record MarketState =
  totalSupplied :: rat
  totalBorrowed :: rat
  totalReserved :: rat
  exchangeRate :: rat
  lastAccrual :: nat

text \<open>
  Modelled from the spec: the utilization of the InterestRateModel (the function is
  missing from the sources): \<open>u = totalBorrowed / totalSupplied\<close>, 0 when
  \<open>totalSupplied\<close> is 0, clamped to the interval from 0 to 1.
\<close>

definition utilization :: "MarketState \<Rightarrow> rat" where
  "utilization ms =
     (if totalSupplied ms = 0 then 0
      else max 0 (min 1 (totalBorrowed ms / totalSupplied ms)))"

text \<open>
  Modelled from the spec: the borrow rate of the InterestRateModel (the function is
  missing from the sources), piecewise linear in \<open>u\<close>:
  \<open>base + slopeLow * min(u, kink)\<close>, plus \<open>slopeHigh * (u - kink)\<close> above the kink.
\<close>

definition borrowRate :: "TokenDenomParams \<Rightarrow> rat \<Rightarrow> rat" where
  "borrowRate p u =
     baseRate p + slopeLow p * min u (kink p) +
     (if kink p < u then slopeHigh p * (u - kink p) else 0)"

text \<open>
  Modelled from the spec: the supply rate of the InterestRateModel (the function is
  missing from the sources): \<open>borrowRate * u * (1 - reserveFactor)\<close>.
\<close>

definition supplyRate :: "TokenDenomParams \<Rightarrow> rat \<Rightarrow> rat" where
  "supplyRate p u = borrowRate p u * u * (1 - reserveFactor p)"

text \<open>
  Modelled from the spec: the contract \<open>rates(marketState, params) -> (borrowAPY,
  supplyAPY)\<close> of the InterestRateModel (the function is missing from the sources).
\<close>

definition rates :: "MarketState \<Rightarrow> TokenDenomParams \<Rightarrow> rat \<times> rat" where
  "rates ms p = (let u = utilization ms in (borrowRate p u, supplyRate p u))"

text \<open>A market and a parameter set for the example.\<close>

definition example_params :: TokenDenomParams where
  "example_params = \<lparr>collateralWeight = 4/5, liquidationThreshold = 17/20,
     reserveFactor = 1/5, baseRate = 1/50, kink = 4/5, slopeLow = 1/5, slopeHigh = 1,
     supplyEnabled = True, borrowEnabled = True, maxCollateralShare = 1\<rparr>"

definition example_market :: MarketState where
  "example_market = \<lparr>totalSupplied = 1000, totalBorrowed = 500, totalReserved = 10,
     exchangeRate = 1, lastAccrual = 0\<rparr>"

section \<open>Properties of the query commands\<close>

subsection \<open>What each command does when it runs\<close>

lemmas cmd_simps =
  Let_def AddQueryFlagsToCmd_def AddFlag_def AddCommand_def Command0_def run_def

lemma run_AllRegisteredTokens:
  "run GetCmdQueryAllRegisteredTokens io args =
     (case args of
        [] \<Rightarrow> (case GetClientQueryContext io of
                   Inl err \<Rightarrow> ([], Some err)
                 | Inr ctx \<Rightarrow> query_and_print ctx RegisteredTokens QueryRegisteredTokens)
      | a # _ \<Rightarrow> ([], Some (UnknownCommand a)))"
  by (simp add: GetCmdQueryAllRegisteredTokens_def cmd_simps denom_flag_def
      split: list.splits sum.splits prod.splits)

lemma run_Params:
  "run GetCmdQueryParams io args =
     (case args of
        [] \<Rightarrow> (case GetClientQueryContext io of
                   Inl err \<Rightarrow> ([], Some err)
                 | Inr ctx \<Rightarrow> query_and_print ctx Params QueryParamsRequest)
      | a # _ \<Rightarrow> ([], Some (UnknownCommand a)))"
  by (simp add: GetCmdQueryParams_def cmd_simps denom_flag_def
      split: list.splits sum.splits prod.splits)

lemma run_Borrowed:
  "run GetCmdQueryBorrowed io args =
     (if length args = 1
      then (case GetClientQueryContext io of
              Inl err \<Rightarrow> ([], Some err)
            | Inr ctx \<Rightarrow> query_and_print ctx Borrowed (QueryBorrowedRequest (hd args) (denom_flag io)))
      else ([], Some (AcceptsArgs 1 (length args))))"
  by (simp add: GetCmdQueryBorrowed_def cmd_simps denom_flag_def
      split: list.splits sum.splits prod.splits)

lemma run_BorrowedValue:
  "run GetCmdQueryBorrowedValue io args =
     (if length args = 1
      then (case GetClientQueryContext io of
              Inl err \<Rightarrow> ([], Some err)
            | Inr ctx \<Rightarrow> query_and_print ctx BorrowedValue (QueryBorrowedValueRequest (hd args) (denom_flag io)))
      else ([], Some (AcceptsArgs 1 (length args))))"
  by (simp add: GetCmdQueryBorrowedValue_def cmd_simps denom_flag_def
      split: list.splits sum.splits prod.splits)

lemma run_Supplied:
  "run GetCmdQuerySupplied io args =
     (if length args = 1
      then (case GetClientQueryContext io of
              Inl err \<Rightarrow> ([], Some err)
            | Inr ctx \<Rightarrow> query_and_print ctx Supplied (QuerySuppliedRequest (hd args) (denom_flag io)))
      else ([], Some (AcceptsArgs 1 (length args))))"
  by (simp add: GetCmdQuerySupplied_def cmd_simps denom_flag_def
      split: list.splits sum.splits prod.splits)

lemma run_SuppliedValue:
  "run GetCmdQuerySuppliedValue io args =
     (if length args = 1
      then (case GetClientQueryContext io of
              Inl err \<Rightarrow> ([], Some err)
            | Inr ctx \<Rightarrow> query_and_print ctx SuppliedValue (QuerySuppliedValueRequest (hd args) (denom_flag io)))
      else ([], Some (AcceptsArgs 1 (length args))))"
  by (simp add: GetCmdQuerySuppliedValue_def cmd_simps denom_flag_def
      split: list.splits sum.splits prod.splits)

lemma run_ReserveAmount:
  "run GetCmdQueryReserveAmount io args =
     (if length args = 1
      then (case GetClientQueryContext io of
              Inl err \<Rightarrow> ([], Some err)
            | Inr ctx \<Rightarrow> query_and_print ctx ReserveAmount (QueryReserveAmountRequest (hd args)))
      else ([], Some (AcceptsArgs 1 (length args))))"
  by (simp add: GetCmdQueryReserveAmount_def cmd_simps denom_flag_def
      split: list.splits sum.splits prod.splits)

lemma run_Collateral:
  "run GetCmdQueryCollateral io args =
     (if length args = 1
      then (case GetClientQueryContext io of
              Inl err \<Rightarrow> ([], Some err)
            | Inr ctx \<Rightarrow> query_and_print ctx Collateral (QueryCollateralRequest (hd args) (denom_flag io)))
      else ([], Some (AcceptsArgs 1 (length args))))"
  by (simp add: GetCmdQueryCollateral_def cmd_simps denom_flag_def
      split: list.splits sum.splits prod.splits)

lemma run_CollateralValue:
  "run GetCmdQueryCollateralValue io args =
     (if length args = 1
      then (case GetClientQueryContext io of
              Inl err \<Rightarrow> ([], Some err)
            | Inr ctx \<Rightarrow> query_and_print ctx CollateralValue (QueryCollateralValueRequest (hd args) (denom_flag io)))
      else ([], Some (AcceptsArgs 1 (length args))))"
  by (simp add: GetCmdQueryCollateralValue_def cmd_simps denom_flag_def
      split: list.splits sum.splits prod.splits)

lemma run_ExchangeRate:
  "run GetCmdQueryExchangeRate io args =
     (if length args = 1
      then (case GetClientQueryContext io of
              Inl err \<Rightarrow> ([], Some err)
            | Inr ctx \<Rightarrow> query_and_print ctx ExchangeRate (QueryExchangeRateRequest (hd args)))
      else ([], Some (AcceptsArgs 1 (length args))))"
  by (simp add: GetCmdQueryExchangeRate_def cmd_simps denom_flag_def
      split: list.splits sum.splits prod.splits)

lemma run_SupplyAPY:
  "run GetCmdQuerySupplyAPY io args =
     (if length args = 1
      then (case GetClientQueryContext io of
              Inl err \<Rightarrow> ([], Some err)
            | Inr ctx \<Rightarrow> query_and_print ctx SupplyAPY (QuerySupplyAPYRequest (hd args)))
      else ([], Some (AcceptsArgs 1 (length args))))"
  by (simp add: GetCmdQuerySupplyAPY_def cmd_simps denom_flag_def
      split: list.splits sum.splits prod.splits)

lemma run_BorrowAPY:
  "run GetCmdQueryBorrowAPY io args =
     (if length args = 1
      then (case GetClientQueryContext io of
              Inl err \<Rightarrow> ([], Some err)
            | Inr ctx \<Rightarrow> query_and_print ctx BorrowAPY (QueryBorrowAPYRequest (hd args)))
      else ([], Some (AcceptsArgs 1 (length args))))"
  by (simp add: GetCmdQueryBorrowAPY_def cmd_simps denom_flag_def
      split: list.splits sum.splits prod.splits)

lemma run_MarketSize:
  "run GetCmdQueryMarketSize io args =
     (if length args = 1
      then (case GetClientQueryContext io of
              Inl err \<Rightarrow> ([], Some err)
            | Inr ctx \<Rightarrow> query_and_print ctx MarketSize (QueryMarketSizeRequest (hd args)))
      else ([], Some (AcceptsArgs 1 (length args))))"
  by (simp add: GetCmdQueryMarketSize_def cmd_simps denom_flag_def
      split: list.splits sum.splits prod.splits)

lemma run_TokenMarketSize:
  "run GetCmdQueryTokenMarketSize io args =
     (if length args = 1
      then (case GetClientQueryContext io of
              Inl err \<Rightarrow> ([], Some err)
            | Inr ctx \<Rightarrow> query_and_print ctx TokenMarketSize (QueryTokenMarketSizeRequest (hd args)))
      else ([], Some (AcceptsArgs 1 (length args))))"
  by (simp add: GetCmdQueryTokenMarketSize_def cmd_simps denom_flag_def
      split: list.splits sum.splits prod.splits)

lemma run_BorrowLimit:
  "run GetCmdQueryBorrowLimit io args =
     (if length args = 1
      then (case GetClientQueryContext io of
              Inl err \<Rightarrow> ([], Some err)
            | Inr ctx \<Rightarrow> query_and_print ctx BorrowLimit (QueryBorrowLimitRequest (hd args)))
      else ([], Some (AcceptsArgs 1 (length args))))"
  by (simp add: GetCmdQueryBorrowLimit_def cmd_simps denom_flag_def
      split: list.splits sum.splits prod.splits)

lemma run_LiquidationThreshold:
  "run GetCmdQueryLiquidationThreshold io args =
     (if length args = 1
      then (case GetClientQueryContext io of
              Inl err \<Rightarrow> ([], Some err)
            | Inr ctx \<Rightarrow> query_and_print ctx LiquidationThreshold (QueryLiquidationThresholdRequest (hd args)))
      else ([], Some (AcceptsArgs 1 (length args))))"
  by (simp add: GetCmdQueryLiquidationThreshold_def cmd_simps denom_flag_def
      split: list.splits sum.splits prod.splits)

lemma run_LiquidationTargets:
  "run GetCmdQueryLiquidationTargets io args =
     (if length args = 0
      then (case GetClientQueryContext io of
              Inl err \<Rightarrow> ([], Some err)
            | Inr ctx \<Rightarrow> query_and_print ctx LiquidationTargets QueryLiquidationTargetsRequest)
      else ([], Some (AcceptsArgs 0 (length args))))"
  by (simp add: GetCmdQueryLiquidationTargets_def cmd_simps denom_flag_def
      split: list.splits sum.splits prod.splits)

lemma run_MarketSummary:
  "run GetCmdQueryMarketSummary io args =
     (if length args = 1
      then (case GetClientQueryContext io of
              Inl err \<Rightarrow> ([], Some err)
            | Inr ctx \<Rightarrow> query_and_print ctx MarketSummary (QueryMarketSummaryRequest (hd args)))
      else ([], Some (AcceptsArgs 1 (length args))))"
  by (simp add: GetCmdQueryMarketSummary_def cmd_simps denom_flag_def
      split: list.splits sum.splits prod.splits)

lemma run_TotalCollateral:
  "run GetCmdQueryTotalCollateral io args =
     (if length args = 1
      then (case GetClientQueryContext io of
              Inl err \<Rightarrow> ([], Some err)
            | Inr ctx \<Rightarrow> query_and_print ctx TotalCollateral (QueryTotalCollateralRequest (hd args)))
      else ([], Some (AcceptsArgs 1 (length args))))"
  by (simp add: GetCmdQueryTotalCollateral_def cmd_simps denom_flag_def
      split: list.splits sum.splits prod.splits)

lemma run_TotalBorrowed:
  "run GetCmdQueryTotalBorrowed io args =
     (if length args = 1
      then (case GetClientQueryContext io of
              Inl err \<Rightarrow> ([], Some err)
            | Inr ctx \<Rightarrow> query_and_print ctx TotalBorrowed (QueryTotalBorrowedRequest (hd args)))
      else ([], Some (AcceptsArgs 1 (length args))))"
  by (simp add: GetCmdQueryTotalBorrowed_def cmd_simps denom_flag_def
      split: list.splits sum.splits prod.splits)

lemma run_AvailableBorrow:
  "run GetCmdQueryAvailableBorrow io args =
     (if length args = 1
      then (case GetClientQueryContext io of
              Inl err \<Rightarrow> ([], Some err)
            | Inr ctx \<Rightarrow> query_and_print ctx AvailableBorrow (QueryAvailableBorrowRequest (hd args)))
      else ([], Some (AcceptsArgs 1 (length args))))"
  by (simp add: GetCmdQueryAvailableBorrow_def cmd_simps denom_flag_def
      split: list.splits sum.splits prod.splits)

lemma Name_commands:
  "Name GetCmdQueryAllRegisteredTokens = ''registered-tokens''"
  "Name GetCmdQueryParams = ''params''"
  "Name GetCmdQueryBorrowed = ''borrowed''"
  "Name GetCmdQueryBorrowedValue = ''borrowed-value''"
  "Name GetCmdQuerySupplied = ''supplied''"
  "Name GetCmdQuerySuppliedValue = ''supplied-value''"
  "Name GetCmdQueryReserveAmount = ''reserved''"
  "Name GetCmdQueryCollateral = ''collateral''"
  "Name GetCmdQueryCollateralValue = ''collateral-value''"
  "Name GetCmdQueryExchangeRate = ''exchange-rate''"
  "Name GetCmdQuerySupplyAPY = ''supply-apy''"
  "Name GetCmdQueryBorrowAPY = ''borrow-apy''"
  "Name GetCmdQueryMarketSize = ''market-size''"
  "Name GetCmdQueryTokenMarketSize = ''token-market-size''"
  "Name GetCmdQueryBorrowLimit = ''borrow-limit''"
  "Name GetCmdQueryLiquidationThreshold = ''liquidation-threshold''"
  "Name GetCmdQueryLiquidationTargets = ''liquidation-targets''"
  "Name GetCmdQueryMarketSummary = ''market-summary''"
  "Name GetCmdQueryTotalCollateral = ''total-collateral''"
  "Name GetCmdQueryTotalBorrowed = ''total-borrowed''"
  "Name GetCmdQueryAvailableBorrow = ''available-borrow''"
  by (simp_all add: Name_def cmd_simps
      GetCmdQueryAllRegisteredTokens_def
      GetCmdQueryParams_def
      GetCmdQueryBorrowed_def
      GetCmdQueryBorrowedValue_def
      GetCmdQuerySupplied_def
      GetCmdQuerySuppliedValue_def
      GetCmdQueryReserveAmount_def
      GetCmdQueryCollateral_def
      GetCmdQueryCollateralValue_def
      GetCmdQueryExchangeRate_def
      GetCmdQuerySupplyAPY_def
      GetCmdQueryBorrowAPY_def
      GetCmdQueryMarketSize_def
      GetCmdQueryTokenMarketSize_def
      GetCmdQueryBorrowLimit_def
      GetCmdQueryLiquidationThreshold_def
      GetCmdQueryLiquidationTargets_def
      GetCmdQueryMarketSummary_def
      GetCmdQueryTotalCollateral_def
      GetCmdQueryTotalBorrowed_def
      GetCmdQueryAvailableBorrow_def)

subsection \<open>The command tree and its dispatch\<close>

lemma Commands_GetQueryCmd:
  "Commands (GetQueryCmd mn qr) =
     [GetCmdQueryAllRegisteredTokens, GetCmdQueryParams, GetCmdQueryBorrowed,
      GetCmdQueryBorrowedValue, GetCmdQuerySupplied, GetCmdQuerySuppliedValue,
      GetCmdQueryReserveAmount, GetCmdQueryCollateral, GetCmdQueryCollateralValue,
      GetCmdQueryExchangeRate, GetCmdQuerySupplyAPY, GetCmdQueryBorrowAPY,
      GetCmdQueryMarketSize, GetCmdQueryTokenMarketSize, GetCmdQueryBorrowLimit,
      GetCmdQueryLiquidationThreshold, GetCmdQueryLiquidationTargets,
      GetCmdQueryMarketSummary, GetCmdQueryTotalCollateral, GetCmdQueryTotalBorrowed]"
  by (simp add: GetQueryCmd_def AddCommand_def Let_def)

lemma run_GetQueryCmd: "run (GetQueryCmd mn qr) io args = ([], ValidateCmd io args)"
  by (simp add: GetQueryCmd_def cmd_simps)

lemma names_GetQueryCmd:
  "map Name (Commands (GetQueryCmd mn qr)) =
     [''registered-tokens'', ''params'', ''borrowed'', ''borrowed-value'', ''supplied'',
      ''supplied-value'', ''reserved'', ''collateral'', ''collateral-value'',
      ''exchange-rate'', ''supply-apy'', ''borrow-apy'', ''market-size'',
      ''token-market-size'', ''borrow-limit'', ''liquidation-threshold'',
      ''liquidation-targets'', ''market-summary'', ''total-collateral'', ''total-borrowed'']"
  by (simp add: Commands_GetQueryCmd Name_commands)

lemma find_command_available_borrow:
  "find_command ''available-borrow'' (Commands (GetQueryCmd mn qr)) = None"
  by (simp add: Commands_GetQueryCmd Name_commands)

lemma find_command_GetQueryCmd:
  "find_command ''registered-tokens'' (Commands (GetQueryCmd mn qr)) = Some GetCmdQueryAllRegisteredTokens"
  "find_command ''params'' (Commands (GetQueryCmd mn qr)) = Some GetCmdQueryParams"
  "find_command ''borrowed'' (Commands (GetQueryCmd mn qr)) = Some GetCmdQueryBorrowed"
  "find_command ''borrowed-value'' (Commands (GetQueryCmd mn qr)) = Some GetCmdQueryBorrowedValue"
  "find_command ''supplied'' (Commands (GetQueryCmd mn qr)) = Some GetCmdQuerySupplied"
  "find_command ''supplied-value'' (Commands (GetQueryCmd mn qr)) = Some GetCmdQuerySuppliedValue"
  "find_command ''reserved'' (Commands (GetQueryCmd mn qr)) = Some GetCmdQueryReserveAmount"
  "find_command ''collateral'' (Commands (GetQueryCmd mn qr)) = Some GetCmdQueryCollateral"
  "find_command ''collateral-value'' (Commands (GetQueryCmd mn qr)) = Some GetCmdQueryCollateralValue"
  "find_command ''exchange-rate'' (Commands (GetQueryCmd mn qr)) = Some GetCmdQueryExchangeRate"
  "find_command ''supply-apy'' (Commands (GetQueryCmd mn qr)) = Some GetCmdQuerySupplyAPY"
  "find_command ''borrow-apy'' (Commands (GetQueryCmd mn qr)) = Some GetCmdQueryBorrowAPY"
  "find_command ''market-size'' (Commands (GetQueryCmd mn qr)) = Some GetCmdQueryMarketSize"
  "find_command ''token-market-size'' (Commands (GetQueryCmd mn qr)) = Some GetCmdQueryTokenMarketSize"
  "find_command ''borrow-limit'' (Commands (GetQueryCmd mn qr)) = Some GetCmdQueryBorrowLimit"
  "find_command ''liquidation-threshold'' (Commands (GetQueryCmd mn qr)) = Some GetCmdQueryLiquidationThreshold"
  "find_command ''liquidation-targets'' (Commands (GetQueryCmd mn qr)) = Some GetCmdQueryLiquidationTargets"
  "find_command ''market-summary'' (Commands (GetQueryCmd mn qr)) = Some GetCmdQueryMarketSummary"
  "find_command ''total-collateral'' (Commands (GetQueryCmd mn qr)) = Some GetCmdQueryTotalCollateral"
  "find_command ''total-borrowed'' (Commands (GetQueryCmd mn qr)) = Some GetCmdQueryTotalBorrowed"
  by (simp_all add: Commands_GetQueryCmd Name_commands)

lemma execute_GetQueryCmd:
  "execute (GetQueryCmd mn qr) io (''registered-tokens'' # args) = run GetCmdQueryAllRegisteredTokens io args"
  "execute (GetQueryCmd mn qr) io (''params'' # args) = run GetCmdQueryParams io args"
  "execute (GetQueryCmd mn qr) io (''borrowed'' # args) = run GetCmdQueryBorrowed io args"
  "execute (GetQueryCmd mn qr) io (''borrowed-value'' # args) = run GetCmdQueryBorrowedValue io args"
  "execute (GetQueryCmd mn qr) io (''supplied'' # args) = run GetCmdQuerySupplied io args"
  "execute (GetQueryCmd mn qr) io (''supplied-value'' # args) = run GetCmdQuerySuppliedValue io args"
  "execute (GetQueryCmd mn qr) io (''reserved'' # args) = run GetCmdQueryReserveAmount io args"
  "execute (GetQueryCmd mn qr) io (''collateral'' # args) = run GetCmdQueryCollateral io args"
  "execute (GetQueryCmd mn qr) io (''collateral-value'' # args) = run GetCmdQueryCollateralValue io args"
  "execute (GetQueryCmd mn qr) io (''exchange-rate'' # args) = run GetCmdQueryExchangeRate io args"
  "execute (GetQueryCmd mn qr) io (''supply-apy'' # args) = run GetCmdQuerySupplyAPY io args"
  "execute (GetQueryCmd mn qr) io (''borrow-apy'' # args) = run GetCmdQueryBorrowAPY io args"
  "execute (GetQueryCmd mn qr) io (''market-size'' # args) = run GetCmdQueryMarketSize io args"
  "execute (GetQueryCmd mn qr) io (''token-market-size'' # args) = run GetCmdQueryTokenMarketSize io args"
  "execute (GetQueryCmd mn qr) io (''borrow-limit'' # args) = run GetCmdQueryBorrowLimit io args"
  "execute (GetQueryCmd mn qr) io (''liquidation-threshold'' # args) = run GetCmdQueryLiquidationThreshold io args"
  "execute (GetQueryCmd mn qr) io (''liquidation-targets'' # args) = run GetCmdQueryLiquidationTargets io args"
  "execute (GetQueryCmd mn qr) io (''market-summary'' # args) = run GetCmdQueryMarketSummary io args"
  "execute (GetQueryCmd mn qr) io (''total-collateral'' # args) = run GetCmdQueryTotalCollateral io args"
  "execute (GetQueryCmd mn qr) io (''total-borrowed'' # args) = run GetCmdQueryTotalBorrowed io args"
  by (simp_all add: execute_def find_command_GetQueryCmd)

lemma execute_available_borrow:
  "execute (GetQueryCmd mn qr) io (''available-borrow'' # args) =
     ([], ValidateCmd io (''available-borrow'' # args))"
  by (simp add: execute_def find_command_available_borrow run_GetQueryCmd)

lemma query_and_print_events:
  "Query m' req' \<in> set (fst (query_and_print ctx m req)) \<Longrightarrow> m' = m \<and> req' = req"
  by (auto simp: query_and_print_def split: sum.splits)

lemma find_command_mem: "find_command a cs = Some c \<Longrightarrow> c \<in> set cs"
  by (induction cs) (auto split: if_splits)

lemma registered_queries:
  assumes "c \<in> set (Commands (GetQueryCmd mn qr))"
    and "Query m req \<in> set (fst (run c io args))"
  shows "m \<noteq> AvailableBorrow \<and> (\<forall>d. req \<noteq> QueryAvailableBorrowRequest d)"
  using assms unfolding Commands_GetQueryCmd set_simps insert_iff empty_iff
  apply (elim disjE FalseE)
  subgoal by (auto simp: run_AllRegisteredTokens dest!: query_and_print_events split: list.splits sum.splits)
  subgoal by (auto simp: run_Params dest!: query_and_print_events split: list.splits sum.splits)
  subgoal by (auto simp: run_Borrowed dest!: query_and_print_events split: if_splits sum.splits)
  subgoal by (auto simp: run_BorrowedValue dest!: query_and_print_events split: if_splits sum.splits)
  subgoal by (auto simp: run_Supplied dest!: query_and_print_events split: if_splits sum.splits)
  subgoal by (auto simp: run_SuppliedValue dest!: query_and_print_events split: if_splits sum.splits)
  subgoal by (auto simp: run_ReserveAmount dest!: query_and_print_events split: if_splits sum.splits)
  subgoal by (auto simp: run_Collateral dest!: query_and_print_events split: if_splits sum.splits)
  subgoal by (auto simp: run_CollateralValue dest!: query_and_print_events split: if_splits sum.splits)
  subgoal by (auto simp: run_ExchangeRate dest!: query_and_print_events split: if_splits sum.splits)
  subgoal by (auto simp: run_SupplyAPY dest!: query_and_print_events split: if_splits sum.splits)
  subgoal by (auto simp: run_BorrowAPY dest!: query_and_print_events split: if_splits sum.splits)
  subgoal by (auto simp: run_MarketSize dest!: query_and_print_events split: if_splits sum.splits)
  subgoal by (auto simp: run_TokenMarketSize dest!: query_and_print_events split: if_splits sum.splits)
  subgoal by (auto simp: run_BorrowLimit dest!: query_and_print_events split: if_splits sum.splits)
  subgoal by (auto simp: run_LiquidationThreshold dest!: query_and_print_events split: if_splits sum.splits)
  subgoal by (auto simp: run_LiquidationTargets dest!: query_and_print_events split: if_splits sum.splits)
  subgoal by (auto simp: run_MarketSummary dest!: query_and_print_events split: if_splits sum.splits)
  subgoal by (auto simp: run_TotalCollateral dest!: query_and_print_events split: if_splits sum.splits)
  subgoal by (auto simp: run_TotalBorrowed dest!: query_and_print_events split: if_splits sum.splits)
  done

lemma execute_queries:
  fixes io :: "'r invocation"
  assumes "Query m req \<in> set (fst (execute (GetQueryCmd mn qr) io args))"
  shows "m \<noteq> AvailableBorrow \<and> (\<forall>d. req \<noteq> QueryAvailableBorrowRequest d)"
proof (cases args)
  case Nil
  with assms show ?thesis by (simp add: execute_def run_GetQueryCmd)
next
  case (Cons a rest)
  show ?thesis
  proof (cases "find_command a (Commands (GetQueryCmd mn qr :: 'r command))")
    case None
    have "execute (GetQueryCmd mn qr) io args = ([], ValidateCmd io args)"
      by (simp add: execute_def Cons None run_GetQueryCmd)
    with assms show ?thesis by simp
  next
    case (Some sub)
    have "execute (GetQueryCmd mn qr) io args = run sub io rest"
      by (simp add: execute_def Cons Some)
    with assms have "Query m req \<in> set (fst (run sub io rest))"
      by simp
    moreover from Some have "sub \<in> set (Commands (GetQueryCmd mn qr :: 'r command))"
      by (rule find_command_mem)
    ultimately show ?thesis
      using registered_queries by blast
  qed
qed

subsection \<open>The registered subcommands\<close>

lemma sent_query_and_print: "sent (query_and_print ctx m req) = [(m, req)]"
  by (simp add: sent_def query_and_print_def split: sum.splits)

lemma arity_commands:
  "arity GetCmdQueryAllRegisteredTokens = 0"
  "arity GetCmdQueryParams = 0"
  "arity GetCmdQueryBorrowed = 1"
  "arity GetCmdQueryBorrowedValue = 1"
  "arity GetCmdQuerySupplied = 1"
  "arity GetCmdQuerySuppliedValue = 1"
  "arity GetCmdQueryReserveAmount = 1"
  "arity GetCmdQueryCollateral = 1"
  "arity GetCmdQueryCollateralValue = 1"
  "arity GetCmdQueryExchangeRate = 1"
  "arity GetCmdQuerySupplyAPY = 1"
  "arity GetCmdQueryBorrowAPY = 1"
  "arity GetCmdQueryMarketSize = 1"
  "arity GetCmdQueryTokenMarketSize = 1"
  "arity GetCmdQueryBorrowLimit = 1"
  "arity GetCmdQueryLiquidationThreshold = 1"
  "arity GetCmdQueryLiquidationTargets = 0"
  "arity GetCmdQueryMarketSummary = 1"
  "arity GetCmdQueryTotalCollateral = 1"
  "arity GetCmdQueryTotalBorrowed = 1"
  by (simp_all add: arity_def cmd_simps
      GetCmdQueryAllRegisteredTokens_def GetCmdQueryParams_def GetCmdQueryBorrowed_def
      GetCmdQueryBorrowedValue_def GetCmdQuerySupplied_def GetCmdQuerySuppliedValue_def
      GetCmdQueryReserveAmount_def GetCmdQueryCollateral_def GetCmdQueryCollateralValue_def
      GetCmdQueryExchangeRate_def GetCmdQuerySupplyAPY_def GetCmdQueryBorrowAPY_def
      GetCmdQueryMarketSize_def GetCmdQueryTokenMarketSize_def GetCmdQueryBorrowLimit_def
      GetCmdQueryLiquidationThreshold_def GetCmdQueryLiquidationTargets_def
      GetCmdQueryMarketSummary_def GetCmdQueryTotalCollateral_def GetCmdQueryTotalBorrowed_def)

lemma dispatch_registered:
  fixes io :: "'r invocation"
  assumes "c \<in> set (Commands (GetQueryCmd mn qr :: 'r command))"
  shows "execute (GetQueryCmd mn qr) io (Name c # args) = run c io args"
  using assms unfolding Commands_GetQueryCmd set_simps insert_iff empty_iff
  by (elim disjE FalseE) (simp_all only: Name_commands execute_GetQueryCmd)

lemma sent_registered:
  fixes io :: "'r invocation"
  assumes ctx: "GetClientQueryContext io = Inr ctx"
  shows "map (\<lambda>c. (Name c, sent (run c io (replicate (arity c) a))))
      (Commands (GetQueryCmd mn qr :: 'r command)) =
     [(''registered-tokens'', [(RegisteredTokens, QueryRegisteredTokens)]),
      (''params'', [(Params, QueryParamsRequest)]),
      (''borrowed'', [(Borrowed, QueryBorrowedRequest a (denom_flag io))]),
      (''borrowed-value'', [(BorrowedValue, QueryBorrowedValueRequest a (denom_flag io))]),
      (''supplied'', [(Supplied, QuerySuppliedRequest a (denom_flag io))]),
      (''supplied-value'', [(SuppliedValue, QuerySuppliedValueRequest a (denom_flag io))]),
      (''reserved'', [(ReserveAmount, QueryReserveAmountRequest a)]),
      (''collateral'', [(Collateral, QueryCollateralRequest a (denom_flag io))]),
      (''collateral-value'', [(CollateralValue, QueryCollateralValueRequest a (denom_flag io))]),
      (''exchange-rate'', [(ExchangeRate, QueryExchangeRateRequest a)]),
      (''supply-apy'', [(SupplyAPY, QuerySupplyAPYRequest a)]),
      (''borrow-apy'', [(BorrowAPY, QueryBorrowAPYRequest a)]),
      (''market-size'', [(MarketSize, QueryMarketSizeRequest a)]),
      (''token-market-size'', [(TokenMarketSize, QueryTokenMarketSizeRequest a)]),
      (''borrow-limit'', [(BorrowLimit, QueryBorrowLimitRequest a)]),
      (''liquidation-threshold'', [(LiquidationThreshold, QueryLiquidationThresholdRequest a)]),
      (''liquidation-targets'', [(LiquidationTargets, QueryLiquidationTargetsRequest)]),
      (''market-summary'', [(MarketSummary, QueryMarketSummaryRequest a)]),
      (''total-collateral'', [(TotalCollateral, QueryTotalCollateralRequest a)]),
      (''total-borrowed'', [(TotalBorrowed, QueryTotalBorrowedRequest a)])]"
  unfolding Commands_GetQueryCmd list.map Name_commands arity_commands
  by (simp add: ctx sent_query_and_print
      run_AllRegisteredTokens run_Params run_Borrowed run_BorrowedValue run_Supplied
      run_SuppliedValue run_ReserveAmount run_Collateral run_CollateralValue run_ExchangeRate
      run_SupplyAPY run_BorrowAPY run_MarketSize run_TokenMarketSize run_BorrowLimit
      run_LiquidationThreshold run_LiquidationTargets run_MarketSummary run_TotalCollateral
      run_TotalBorrowed)

text \<open>
  Claim C2. \<open>GetQueryCmd\<close> registers exactly the twenty commands that
  \<open>GetCmdQueryAllRegisteredTokens\<close>, ..., \<open>GetCmdQueryTotalBorrowed\<close> build. Their names are
  registered-tokens, params, borrowed, borrowed-value, supplied, supplied-value, reserved,
  collateral, collateral-value, exchange-rate, supply-apy, borrow-apy, market-size,
  token-market-size, borrow-limit, liquidation-threshold, liquidation-targets,
  market-summary, total-collateral and total-borrowed, pairwise different, and the command
  tree runs each of them under its name. Run with a client context on as many arguments
  as it accepts, each of them sends exactly one query, through the method and with the
  request of the table below; every query of the menu that the specification lists is
  sent by one of them.
\<close>

theorem registered_subcommands:
  fixes io :: "'r invocation"
  shows
  "Commands (GetQueryCmd mn qr :: 'r command) =
     [GetCmdQueryAllRegisteredTokens, GetCmdQueryParams, GetCmdQueryBorrowed,
      GetCmdQueryBorrowedValue, GetCmdQuerySupplied, GetCmdQuerySuppliedValue,
      GetCmdQueryReserveAmount, GetCmdQueryCollateral, GetCmdQueryCollateralValue,
      GetCmdQueryExchangeRate, GetCmdQuerySupplyAPY, GetCmdQueryBorrowAPY,
      GetCmdQueryMarketSize, GetCmdQueryTokenMarketSize, GetCmdQueryBorrowLimit,
      GetCmdQueryLiquidationThreshold, GetCmdQueryLiquidationTargets,
      GetCmdQueryMarketSummary, GetCmdQueryTotalCollateral, GetCmdQueryTotalBorrowed] \<and>
   map Name (Commands (GetQueryCmd mn qr :: 'r command)) =
     [''registered-tokens'', ''params'', ''borrowed'', ''borrowed-value'', ''supplied'',
      ''supplied-value'', ''reserved'', ''collateral'', ''collateral-value'',
      ''exchange-rate'', ''supply-apy'', ''borrow-apy'', ''market-size'',
      ''token-market-size'', ''borrow-limit'', ''liquidation-threshold'',
      ''liquidation-targets'', ''market-summary'', ''total-collateral'', ''total-borrowed''] \<and>
   length (Commands (GetQueryCmd mn qr :: 'r command)) = 20 \<and>
   distinct (map Name (Commands (GetQueryCmd mn qr :: 'r command))) \<and>
   (\<forall>c \<in> set (Commands (GetQueryCmd mn qr :: 'r command)). \<forall>args.
      execute (GetQueryCmd mn qr) io (Name c # args) = run c io args) \<and>
   (\<forall>ctx. GetClientQueryContext io = Inr ctx \<longrightarrow>
      map (\<lambda>c. (Name c, sent (run c io (replicate (arity c) a))))
        (Commands (GetQueryCmd mn qr :: 'r command)) =
     [(''registered-tokens'', [(RegisteredTokens, QueryRegisteredTokens)]),
      (''params'', [(Params, QueryParamsRequest)]),
      (''borrowed'', [(Borrowed, QueryBorrowedRequest a (denom_flag io))]),
      (''borrowed-value'', [(BorrowedValue, QueryBorrowedValueRequest a (denom_flag io))]),
      (''supplied'', [(Supplied, QuerySuppliedRequest a (denom_flag io))]),
      (''supplied-value'', [(SuppliedValue, QuerySuppliedValueRequest a (denom_flag io))]),
      (''reserved'', [(ReserveAmount, QueryReserveAmountRequest a)]),
      (''collateral'', [(Collateral, QueryCollateralRequest a (denom_flag io))]),
      (''collateral-value'', [(CollateralValue, QueryCollateralValueRequest a (denom_flag io))]),
      (''exchange-rate'', [(ExchangeRate, QueryExchangeRateRequest a)]),
      (''supply-apy'', [(SupplyAPY, QuerySupplyAPYRequest a)]),
      (''borrow-apy'', [(BorrowAPY, QueryBorrowAPYRequest a)]),
      (''market-size'', [(MarketSize, QueryMarketSizeRequest a)]),
      (''token-market-size'', [(TokenMarketSize, QueryTokenMarketSizeRequest a)]),
      (''borrow-limit'', [(BorrowLimit, QueryBorrowLimitRequest a)]),
      (''liquidation-threshold'', [(LiquidationThreshold, QueryLiquidationThresholdRequest a)]),
      (''liquidation-targets'', [(LiquidationTargets, QueryLiquidationTargetsRequest)]),
      (''market-summary'', [(MarketSummary, QueryMarketSummaryRequest a)]),
      (''total-collateral'', [(TotalCollateral, QueryTotalCollateralRequest a)]),
      (''total-borrowed'', [(TotalBorrowed, QueryTotalBorrowedRequest a)])] \<and>
      (\<forall>m \<in> set query_menu. \<exists>c \<in> set (Commands (GetQueryCmd mn qr :: 'r command)).
         map fst (sent (run c io (replicate (arity c) a))) = [m]))"
proof -
  have cmds: "Commands (GetQueryCmd mn qr :: 'r command) =
     [GetCmdQueryAllRegisteredTokens, GetCmdQueryParams, GetCmdQueryBorrowed,
      GetCmdQueryBorrowedValue, GetCmdQuerySupplied, GetCmdQuerySuppliedValue,
      GetCmdQueryReserveAmount, GetCmdQueryCollateral, GetCmdQueryCollateralValue,
      GetCmdQueryExchangeRate, GetCmdQuerySupplyAPY, GetCmdQueryBorrowAPY,
      GetCmdQueryMarketSize, GetCmdQueryTokenMarketSize, GetCmdQueryBorrowLimit,
      GetCmdQueryLiquidationThreshold, GetCmdQueryLiquidationTargets,
      GetCmdQueryMarketSummary, GetCmdQueryTotalCollateral, GetCmdQueryTotalBorrowed]"
    by (rule Commands_GetQueryCmd)
  have names: "map Name (Commands (GetQueryCmd mn qr :: 'r command)) =
     [''registered-tokens'', ''params'', ''borrowed'', ''borrowed-value'', ''supplied'',
      ''supplied-value'', ''reserved'', ''collateral'', ''collateral-value'',
      ''exchange-rate'', ''supply-apy'', ''borrow-apy'', ''market-size'',
      ''token-market-size'', ''borrow-limit'', ''liquidation-threshold'',
      ''liquidation-targets'', ''market-summary'', ''total-collateral'', ''total-borrowed'']"
    by (rule names_GetQueryCmd)
  have len: "length (Commands (GetQueryCmd mn qr :: 'r command)) = 20"
    by (simp add: Commands_GetQueryCmd)
  have dist: "distinct (map Name (Commands (GetQueryCmd mn qr :: 'r command)))"
    by (simp add: names_GetQueryCmd)
  have disp: "\<forall>c \<in> set (Commands (GetQueryCmd mn qr :: 'r command)). \<forall>args.
      execute (GetQueryCmd mn qr) io (Name c # args) = run c io args"
    by (simp add: dispatch_registered)
  have cover: "\<forall>m \<in> set query_menu. \<exists>c \<in> set (Commands (GetQueryCmd mn qr :: 'r command)).
      map fst (sent (run c io (replicate (arity c) a))) = [m]"
    if ctx: "GetClientQueryContext io = Inr ctx" for ctx
    unfolding Commands_GetQueryCmd query_menu_def arity_commands
    by (simp add: ctx sent_query_and_print arity_commands
      run_AllRegisteredTokens run_Params run_Borrowed run_BorrowedValue run_Supplied
      run_SuppliedValue run_ReserveAmount run_Collateral run_CollateralValue run_ExchangeRate
      run_SupplyAPY run_BorrowAPY run_MarketSize run_TokenMarketSize run_BorrowLimit
      run_LiquidationThreshold run_LiquidationTargets run_MarketSummary run_TotalCollateral
      run_TotalBorrowed)
  from cmds names len dist disp sent_registered [of io _ a mn qr] cover show ?thesis
    by blast
qed

theorem registered_subcommands_witness:
  "GetClientQueryContext example_io = Inr example_ctx \<and>
   GetCmdQuerySupplied \<in> set (Commands (GetQueryCmd ''leverage'' ''leverage'' :: string command)) \<and>
   Supplied \<in> set query_menu \<and>
   sent (execute (GetQueryCmd ''leverage'' ''leverage'') example_io [''supplied'', ''umee1abc'']) =
     [(Supplied, QuerySuppliedRequest ''umee1abc'' ''uumee'')]"
  using registered_subcommands [of "''leverage''" "''leverage''" example_io "''umee1abc''"]
  by (simp add: example_io_def example_ctx_def query_menu_def Commands_GetQueryCmd
      execute_GetQueryCmd run_Supplied sent_query_and_print denom_flag_def)

subsection \<open>The positional argument\<close>

lemma positional_cases:
  assumes "name \<in> set address_commands \<union> set denom_commands"
  shows "name = ''borrowed'' \<or> name = ''borrowed-value'' \<or> name = ''supplied'' \<or>
    name = ''supplied-value'' \<or> name = ''collateral'' \<or> name = ''collateral-value'' \<or>
    name = ''borrow-limit'' \<or> name = ''liquidation-threshold'' \<or> name = ''reserved'' \<or>
    name = ''exchange-rate'' \<or> name = ''supply-apy'' \<or> name = ''borrow-apy'' \<or>
    name = ''market-size'' \<or> name = ''token-market-size'' \<or> name = ''market-summary'' \<or>
    name = ''total-collateral'' \<or> name = ''total-borrowed''"
  using assms unfolding address_commands_def denom_commands_def
  by (simp only: set_simps Un_iff insert_iff empty_iff disj_assoc simp_thms)

lemma forwarded_shape:
  assumes run: "\<And>args. execute parent io (name # args) =
      (if length args = 1
       then (case GetClientQueryContext io of
               Inl err \<Rightarrow> ([], Some err)
             | Inr ctx \<Rightarrow> query_and_print ctx m (mk (hd args)))
       else ([], Some (AcceptsArgs 1 (length args))))"
    and addr: "name \<in> set address_commands \<Longrightarrow> Address (mk a) = a"
    and den: "name \<in> set denom_commands \<Longrightarrow> Denom (mk a) = a"
  shows "(length args \<noteq> 1 \<longrightarrow>
            execute parent io (name # args) = ([], Some (AcceptsArgs 1 (length args)))) \<and>
         (\<forall>err. GetClientQueryContext io = Inl err \<longrightarrow>
            execute parent io [name, a] = ([], Some err)) \<and>
         (\<forall>ctx. GetClientQueryContext io = Inr ctx \<longrightarrow>
            (\<exists>m req.
               execute parent io [name, a] =
                 (case Invoke ctx m req of
                    Inl err \<Rightarrow> ([Query m req], Some err)
                  | Inr resp \<Rightarrow> ([Query m req, Print resp], PrintProto ctx resp)) \<and>
               (name \<in> set address_commands \<longrightarrow> Address req = a) \<and>
               (name \<in> set denom_commands \<longrightarrow> Denom req = a)))"
proof (intro conjI allI impI)
  assume "length args \<noteq> 1"
  then show "execute parent io (name # args) = ([], Some (AcceptsArgs 1 (length args)))"
    by (simp add: run)
next
  fix err
  assume "GetClientQueryContext io = Inl err"
  then show "execute parent io [name, a] = ([], Some err)"
    by (simp add: run)
next
  fix ctx
  assume ctx: "GetClientQueryContext io = Inr ctx"
  have "execute parent io [name, a] =
          (case Invoke ctx m (mk a) of
             Inl err \<Rightarrow> ([Query m (mk a)], Some err)
           | Inr resp \<Rightarrow> ([Query m (mk a), Print resp], PrintProto ctx resp))"
    by (simp add: run ctx query_and_print_def)
  with addr den show "\<exists>m req.
      execute parent io [name, a] =
        (case Invoke ctx m req of
           Inl err \<Rightarrow> ([Query m req], Some err)
         | Inr resp \<Rightarrow> ([Query m req, Print resp], PrintProto ctx resp)) \<and>
      (name \<in> set address_commands \<longrightarrow> Address req = a) \<and>
      (name \<in> set denom_commands \<longrightarrow> Denom req = a)"
    by blast
qed

text \<open>
  Claim C1. Let \<open>name\<close> be one of the seventeen subcommands that take a positional
  argument. Any number of arguments other than one is refused by the argument validation,
  and nothing is sent. With one argument \<open>a\<close>: when no client context can be made, its
  error is returned and nothing is sent; otherwise exactly one request is sent, it carries
  \<open>a\<close> itself in its \<open>Address\<close> field (for the commands on an address) or in its
  \<open>Denom\<close> field (for the commands on a denomination), an error of the service is
  returned as it is, and a response of the service is handed to \<open>PrintProto\<close> as it is,
  whose result is the result of the command.
\<close>

theorem positional_argument_forwarded:
  assumes "name \<in> set address_commands \<union> set denom_commands"
  shows "(length args \<noteq> 1 \<longrightarrow>
            execute (GetQueryCmd mn qr) io (name # args) =
              ([], Some (AcceptsArgs 1 (length args)))) \<and>
         (\<forall>err. GetClientQueryContext io = Inl err \<longrightarrow>
            execute (GetQueryCmd mn qr) io [name, a] = ([], Some err)) \<and>
         (\<forall>ctx. GetClientQueryContext io = Inr ctx \<longrightarrow>
            (\<exists>m req.
               execute (GetQueryCmd mn qr) io [name, a] =
                 (case Invoke ctx m req of
                    Inl err \<Rightarrow> ([Query m req], Some err)
                  | Inr resp \<Rightarrow> ([Query m req, Print resp], PrintProto ctx resp)) \<and>
               (name \<in> set address_commands \<longrightarrow> Address req = a) \<and>
               (name \<in> set denom_commands \<longrightarrow> Denom req = a)))"
proof -
  show ?thesis
    using positional_cases [OF assms]
  proof (elim disjE)
    assume n: "name = ''borrowed''"
    show ?thesis
      unfolding n
      by (rule forwarded_shape [where m = Borrowed and mk = "\<lambda>a. QueryBorrowedRequest a (denom_flag io)"])
        (simp_all add: execute_GetQueryCmd run_Borrowed address_commands_def denom_commands_def)
  next
    assume n: "name = ''borrowed-value''"
    show ?thesis
      unfolding n
      by (rule forwarded_shape [where m = BorrowedValue and mk = "\<lambda>a. QueryBorrowedValueRequest a (denom_flag io)"])
        (simp_all add: execute_GetQueryCmd run_BorrowedValue address_commands_def denom_commands_def)
  next
    assume n: "name = ''supplied''"
    show ?thesis
      unfolding n
      by (rule forwarded_shape [where m = Supplied and mk = "\<lambda>a. QuerySuppliedRequest a (denom_flag io)"])
        (simp_all add: execute_GetQueryCmd run_Supplied address_commands_def denom_commands_def)
  next
    assume n: "name = ''supplied-value''"
    show ?thesis
      unfolding n
      by (rule forwarded_shape [where m = SuppliedValue and mk = "\<lambda>a. QuerySuppliedValueRequest a (denom_flag io)"])
        (simp_all add: execute_GetQueryCmd run_SuppliedValue address_commands_def denom_commands_def)
  next
    assume n: "name = ''collateral''"
    show ?thesis
      unfolding n
      by (rule forwarded_shape [where m = Collateral and mk = "\<lambda>a. QueryCollateralRequest a (denom_flag io)"])
        (simp_all add: execute_GetQueryCmd run_Collateral address_commands_def denom_commands_def)
  next
    assume n: "name = ''collateral-value''"
    show ?thesis
      unfolding n
      by (rule forwarded_shape [where m = CollateralValue and mk = "\<lambda>a. QueryCollateralValueRequest a (denom_flag io)"])
        (simp_all add: execute_GetQueryCmd run_CollateralValue address_commands_def denom_commands_def)
  next
    assume n: "name = ''borrow-limit''"
    show ?thesis
      unfolding n
      by (rule forwarded_shape [where m = BorrowLimit and mk = "QueryBorrowLimitRequest"])
        (simp_all add: execute_GetQueryCmd run_BorrowLimit address_commands_def denom_commands_def)
  next
    assume n: "name = ''liquidation-threshold''"
    show ?thesis
      unfolding n
      by (rule forwarded_shape [where m = LiquidationThreshold and mk = "QueryLiquidationThresholdRequest"])
        (simp_all add: execute_GetQueryCmd run_LiquidationThreshold address_commands_def denom_commands_def)
  next
    assume n: "name = ''reserved''"
    show ?thesis
      unfolding n
      by (rule forwarded_shape [where m = ReserveAmount and mk = "QueryReserveAmountRequest"])
        (simp_all add: execute_GetQueryCmd run_ReserveAmount address_commands_def denom_commands_def)
  next
    assume n: "name = ''exchange-rate''"
    show ?thesis
      unfolding n
      by (rule forwarded_shape [where m = ExchangeRate and mk = "QueryExchangeRateRequest"])
        (simp_all add: execute_GetQueryCmd run_ExchangeRate address_commands_def denom_commands_def)
  next
    assume n: "name = ''supply-apy''"
    show ?thesis
      unfolding n
      by (rule forwarded_shape [where m = SupplyAPY and mk = "QuerySupplyAPYRequest"])
        (simp_all add: execute_GetQueryCmd run_SupplyAPY address_commands_def denom_commands_def)
  next
    assume n: "name = ''borrow-apy''"
    show ?thesis
      unfolding n
      by (rule forwarded_shape [where m = BorrowAPY and mk = "QueryBorrowAPYRequest"])
        (simp_all add: execute_GetQueryCmd run_BorrowAPY address_commands_def denom_commands_def)
  next
    assume n: "name = ''market-size''"
    show ?thesis
      unfolding n
      by (rule forwarded_shape [where m = MarketSize and mk = "QueryMarketSizeRequest"])
        (simp_all add: execute_GetQueryCmd run_MarketSize address_commands_def denom_commands_def)
  next
    assume n: "name = ''token-market-size''"
    show ?thesis
      unfolding n
      by (rule forwarded_shape [where m = TokenMarketSize and mk = "QueryTokenMarketSizeRequest"])
        (simp_all add: execute_GetQueryCmd run_TokenMarketSize address_commands_def denom_commands_def)
  next
    assume n: "name = ''market-summary''"
    show ?thesis
      unfolding n
      by (rule forwarded_shape [where m = MarketSummary and mk = "QueryMarketSummaryRequest"])
        (simp_all add: execute_GetQueryCmd run_MarketSummary address_commands_def denom_commands_def)
  next
    assume n: "name = ''total-collateral''"
    show ?thesis
      unfolding n
      by (rule forwarded_shape [where m = TotalCollateral and mk = "QueryTotalCollateralRequest"])
        (simp_all add: execute_GetQueryCmd run_TotalCollateral address_commands_def denom_commands_def)
  next
    assume n: "name = ''total-borrowed''"
    show ?thesis
      unfolding n
      by (rule forwarded_shape [where m = TotalBorrowed and mk = "QueryTotalBorrowedRequest"])
        (simp_all add: execute_GetQueryCmd run_TotalBorrowed address_commands_def denom_commands_def)
  qed
qed

theorem positional_argument_forwarded_witness:
  "''exchange-rate'' \<in> set address_commands \<union> set denom_commands \<and>
   GetClientQueryContext example_io = Inr example_ctx \<and>
   Invoke example_ctx ExchangeRate (QueryExchangeRateRequest ''uumee'') = Inr ''response'' \<and>
   execute (GetQueryCmd ''leverage'' ''leverage'') example_io [''exchange-rate'', ''uumee''] =
     ([Query ExchangeRate (QueryExchangeRateRequest ''uumee''), Print ''response''], None) \<and>
   execute (GetQueryCmd ''leverage'' ''leverage'') example_io [''borrow-limit'', ''umee1abc''] =
     ([Query BorrowLimit (QueryBorrowLimitRequest ''umee1abc''), Print ''response''], None) \<and>
   execute (GetQueryCmd ''leverage'' ''leverage'') example_io [''exchange-rate''] =
     ([], Some (AcceptsArgs 1 0))"
  using positional_argument_forwarded [of "''exchange-rate''" "[]" "''leverage''" "''leverage''"
      example_io "''uumee''"]
  by (simp add: address_commands_def denom_commands_def example_io_def example_ctx_def
      execute_GetQueryCmd run_ExchangeRate run_BorrowLimit query_and_print_def)

subsection \<open>The denom flag\<close>

lemma denom_flag_cases:
  assumes "name \<in> set denom_flag_commands"
  shows "name = ''borrowed'' \<or> name = ''borrowed-value'' \<or> name = ''supplied'' \<or>
    name = ''supplied-value'' \<or> name = ''collateral'' \<or> name = ''collateral-value''"
  using assms unfolding denom_flag_commands_def
  by (simp only: set_simps insert_iff empty_iff simp_thms)

lemma denom_flag_shape:
  assumes run: "execute parent io [name, a] = query_and_print ctx m (mk a (denom_flag io))"
    and flag: "GetString io FlagDenom = (d, err)"
    and addr: "\<And>x y. Address (mk x y) = x"
    and den: "\<And>x y. Denom (mk x y) = y"
  shows "\<exists>m req.
      execute parent io [name, a] =
        (case Invoke ctx m req of
           Inl e \<Rightarrow> ([Query m req], Some e)
         | Inr resp \<Rightarrow> ([Query m req, Print resp], PrintProto ctx resp)) \<and>
      Address req = a \<and>
      Denom req = (if d \<noteq> [] \<and> err = None then d else [])"
proof (intro exI conjI)
  show "execute parent io [name, a] =
      (case Invoke ctx m (mk a (denom_flag io)) of
         Inl e \<Rightarrow> ([Query m (mk a (denom_flag io))], Some e)
       | Inr resp \<Rightarrow> ([Query m (mk a (denom_flag io)), Print resp], PrintProto ctx resp))"
    by (simp add: run query_and_print_def)
  show "Address (mk a (denom_flag io)) = a"
    by (rule addr)
  show "Denom (mk a (denom_flag io)) = (if d \<noteq> [] \<and> err = None then d else [])"
    by (simp add: den denom_flag_def flag)
qed

text \<open>
  Claim C9. For borrowed, borrowed-value, supplied, supplied-value, collateral and
  collateral-value, run with a client context on one argument \<open>a\<close>: when reading the
  \<open>--denom\<close> flag returns the value \<open>d\<close> and the error \<open>err\<close>, the request that is sent
  has \<open>Address = a\<close>, and its \<open>Denom\<close> is \<open>d\<close> if \<open>d\<close> is not empty and \<open>err\<close> is nil, and
  empty otherwise. The error of the flag read is not returned: the outcome of the command
  is that of the query and of the print.
\<close>

theorem denom_flag_read:
  fixes io :: "'r invocation"
  assumes "name \<in> set denom_flag_commands"
    and ctx: "GetClientQueryContext io = Inr ctx"
    and flag: "GetString io FlagDenom = (d, err)"
  shows "\<exists>m req.
      execute (GetQueryCmd mn qr) io [name, a] =
        (case Invoke ctx m req of
           Inl e \<Rightarrow> ([Query m req], Some e)
         | Inr resp \<Rightarrow> ([Query m req, Print resp], PrintProto ctx resp)) \<and>
      Address req = a \<and>
      Denom req = (if d \<noteq> [] \<and> err = None then d else [])"
  using denom_flag_cases [OF assms(1)]
proof (elim disjE)
  assume n: "name = ''borrowed''"
  show ?thesis
    unfolding n
    by (rule denom_flag_shape [where m = Borrowed and mk = QueryBorrowedRequest, OF _ flag])
      (simp_all add: execute_GetQueryCmd run_Borrowed ctx)
next
  assume n: "name = ''borrowed-value''"
  show ?thesis
    unfolding n
    by (rule denom_flag_shape
          [where m = BorrowedValue and mk = QueryBorrowedValueRequest, OF _ flag])
      (simp_all add: execute_GetQueryCmd run_BorrowedValue ctx)
next
  assume n: "name = ''supplied''"
  show ?thesis
    unfolding n
    by (rule denom_flag_shape [where m = Supplied and mk = QuerySuppliedRequest, OF _ flag])
      (simp_all add: execute_GetQueryCmd run_Supplied ctx)
next
  assume n: "name = ''supplied-value''"
  show ?thesis
    unfolding n
    by (rule denom_flag_shape
          [where m = SuppliedValue and mk = QuerySuppliedValueRequest, OF _ flag])
      (simp_all add: execute_GetQueryCmd run_SuppliedValue ctx)
next
  assume n: "name = ''collateral''"
  show ?thesis
    unfolding n
    by (rule denom_flag_shape [where m = Collateral and mk = QueryCollateralRequest, OF _ flag])
      (simp_all add: execute_GetQueryCmd run_Collateral ctx)
next
  assume n: "name = ''collateral-value''"
  show ?thesis
    unfolding n
    by (rule denom_flag_shape
          [where m = CollateralValue and mk = QueryCollateralValueRequest, OF _ flag])
      (simp_all add: execute_GetQueryCmd run_CollateralValue ctx)
qed

theorem denom_flag_read_witness:
  "''borrowed'' \<in> set denom_flag_commands \<and>
   GetClientQueryContext flag_error_io = Inr example_ctx \<and>
   GetString flag_error_io FlagDenom =
     (''uumee'', Some (Err ''flag accessed but not defined'')) \<and>
   execute (GetQueryCmd ''leverage'' ''leverage'') flag_error_io [''borrowed'', ''umee1abc''] =
     ([Query Borrowed (QueryBorrowedRequest ''umee1abc'' []), Print ''response''], None) \<and>
   execute (GetQueryCmd ''leverage'' ''leverage'') example_io [''borrowed'', ''umee1abc''] =
     ([Query Borrowed (QueryBorrowedRequest ''umee1abc'' ''uumee''), Print ''response''], None)"
  using denom_flag_read [of "''borrowed''" flag_error_io example_ctx "''uumee''"
      "Some (Err ''flag accessed but not defined'')" "''leverage''" "''leverage''" "''umee1abc''"]
  by (simp add: denom_flag_commands_def flag_error_io_def example_io_def example_ctx_def
      execute_GetQueryCmd run_Borrowed query_and_print_def denom_flag_def)

subsection \<open>The available-borrow command\<close>

text \<open>
  Claim C10. \<open>GetCmdQueryAvailableBorrow\<close> builds a command named available-borrow that,
  run on one argument with a client context, sends the \<open>AvailableBorrow\<close> query. No
  subcommand of \<open>GetQueryCmd\<close> has that name, and no run of the command tree of
  \<open>GetQueryCmd\<close>, on any arguments and with any collaborators, sends an
  \<open>AvailableBorrow\<close> query or a \<open>QueryAvailableBorrowRequest\<close>.
\<close>

theorem available_borrow_unreachable:
  "Name (GetCmdQueryAvailableBorrow :: 'r command) = ''available-borrow'' \<and>
   (\<forall>(io :: 'r invocation) ctx a. GetClientQueryContext io = Inr ctx \<longrightarrow>
      Query AvailableBorrow (QueryAvailableBorrowRequest a)
        \<in> set (fst (run GetCmdQueryAvailableBorrow io [a]))) \<and>
   ''available-borrow'' \<notin> set (map Name (Commands (GetQueryCmd mn qr :: 'r command))) \<and>
   (\<forall>(io :: 'r invocation) args m req.
      Query m req \<in> set (fst (execute (GetQueryCmd mn qr) io args)) \<longrightarrow>
      m \<noteq> AvailableBorrow \<and> (\<forall>d. req \<noteq> QueryAvailableBorrowRequest d))"
proof -
  have built: "Name (GetCmdQueryAvailableBorrow :: 'r command) = ''available-borrow''"
    by (simp add: Name_commands)
  have works: "Query AvailableBorrow (QueryAvailableBorrowRequest a)
      \<in> set (fst (run GetCmdQueryAvailableBorrow io [a]))"
    if "GetClientQueryContext io = Inr ctx" for io :: "'r invocation" and ctx a
    using that by (simp add: run_AvailableBorrow query_and_print_def split: sum.splits)
  have absent: "''available-borrow'' \<notin> set (map Name (Commands (GetQueryCmd mn qr :: 'r command)))"
    by (simp add: names_GetQueryCmd)
  have unreachable: "m \<noteq> AvailableBorrow \<and> (\<forall>d. req \<noteq> QueryAvailableBorrowRequest d)"
    if "Query m req \<in> set (fst (execute (GetQueryCmd mn qr) io args))"
    for io :: "'r invocation" and args m req
    using that by (rule execute_queries)
  from built works absent unreachable show ?thesis
    by blast
qed

theorem available_borrow_unreachable_witness:
  "Query ExchangeRate (QueryExchangeRateRequest ''uumee'')
     \<in> set (fst (execute (GetQueryCmd ''leverage'' ''leverage'') example_io
          [''exchange-rate'', ''uumee''])) \<and>
   ExchangeRate \<noteq> AvailableBorrow \<and>
   execute (GetQueryCmd ''leverage'' ''leverage'') example_io
     [''available-borrow'', ''uumee''] = ([], None)"
  using available_borrow_unreachable [of "''leverage''" "''leverage''"]
  by (simp add: execute_GetQueryCmd run_ExchangeRate query_and_print_def example_io_def
      example_ctx_def execute_available_borrow)

section \<open>Properties of the interest rate model\<close>

lemma utilization_bounds: "0 \<le> utilization ms \<and> utilization ms \<le> 1"
  by (simp add: utilization_def)

lemma utilization_exact:
  assumes "0 \<le> totalBorrowed ms" "totalBorrowed ms \<le> totalSupplied ms" "0 < totalSupplied ms"
  shows "utilization ms = totalBorrowed ms / totalSupplied ms"
  using assms by (simp add: utilization_def min_def max_def)

text \<open>
  Claim C7. For every market state and parameter set, the utilization is 0 when
  \<open>totalSupplied\<close> is 0 and otherwise \<open>totalBorrowed / totalSupplied\<close> clamped to the
  interval from 0 to 1 (so it is that quotient itself whenever
  \<open>0 \<le> totalBorrowed \<le> totalSupplied\<close> and \<open>0 < totalSupplied\<close>), it lies between 0 and
  1, and \<open>rates\<close> returns the borrow rate at that utilization together with the supply
  rate \<open>borrowRate * u * (1 - reserveFactor)\<close>.
\<close>

theorem interest_rate_formulas:
  "utilization ms =
     (if totalSupplied ms = 0 then 0
      else max 0 (min 1 (totalBorrowed ms / totalSupplied ms))) \<and>
   0 \<le> utilization ms \<and> utilization ms \<le> 1 \<and>
   (0 \<le> totalBorrowed ms \<and> totalBorrowed ms \<le> totalSupplied ms \<and> 0 < totalSupplied ms
      \<longrightarrow> utilization ms = totalBorrowed ms / totalSupplied ms) \<and>
   rates ms p =
     (borrowRate p (utilization ms),
      borrowRate p (utilization ms) * utilization ms * (1 - reserveFactor p))"
  using utilization_bounds [of ms] utilization_exact [of ms]
  by (simp add: rates_def supplyRate_def Let_def) (simp add: utilization_def)

theorem interest_rate_formulas_witness:
  "0 \<le> totalBorrowed example_market \<and>
   totalBorrowed example_market \<le> totalSupplied example_market \<and>
   0 < totalSupplied example_market \<and>
   utilization example_market = 1/2 \<and>
   rates example_market example_params = (3/25, 6/125)"
  using interest_rate_formulas [of example_market example_params]
  by (simp add: example_market_def example_params_def borrowRate_def utilization_def
      rates_def supplyRate_def)

end
